theory Spec2Isabelle
  imports Main
begin

section \<open>Polysat core saturation (math/polysat/saturation.cpp)\<close>

text \<open>
  A shallow embedding of \<^verbatim>\<open>inf_saturate\<close>: the entry point \<^verbatim>\<open>perform\<close>, the four
  inference rules, the propagation gate and the non-overflow justification
  (\<^verbatim>\<open>push_omega\<close>, \<^verbatim>\<open>push_omega_bisect\<close>).  The term facility, the literals, the solver
  state and the conflict core are collaborators declared outside saturation.cpp; they are
  modelled from the specification, each under a comment that says so.
\<close>

subsection \<open>Terms: polynomials over the integers modulo \<open>2 ^ w\<close>\<close>

type_synonym pvar = nat

text \<open>A monomial is the sorted list of its variables, with multiplicity.\<close>

type_synonym monomial = "pvar list"

text \<open>
  Modelled from the spec: the polynomial type \<^verbatim>\<open>pdd\<close> of the term facility (declared
  outside saturation.cpp).  A term is an expression over variables and ring constants
  under addition and multiplication, immutable and compared structurally.  It is kept
  in a normal form: monomials in strictly increasing order, every coefficient in
  \<open>{1 ..< 2 ^ w}\<close>.  The zero polynomial is the empty list.
\<close>

type_synonym pdd = "(monomial \<times> int) list"

fun mono_less :: "monomial \<Rightarrow> monomial \<Rightarrow> bool" where
  "mono_less [] [] = False"
| "mono_less [] (y # ys) = True"
| "mono_less (x # xs) [] = False"
| "mono_less (x # xs) (y # ys) = (x < y \<or> (x = y \<and> mono_less xs ys))"

text \<open>Adding \<open>c * m\<close> to a polynomial in normal form, coefficients reduced modulo \<open>2 ^ w\<close>.\<close>

fun add_mono :: "nat \<Rightarrow> monomial \<Rightarrow> int \<Rightarrow> pdd \<Rightarrow> pdd" where
  "add_mono w m c [] = (if c mod 2 ^ w = 0 then [] else [(m, c mod 2 ^ w)])"
| "add_mono w m c ((m', c') # p) =
     (if m = m' then
        (if (c + c') mod 2 ^ w = 0 then p else (m, (c + c') mod 2 ^ w) # p)
      else if mono_less m m' then
        (if c mod 2 ^ w = 0 then (m', c') # p else (m, c mod 2 ^ w) # (m', c') # p)
      else (m', c') # add_mono w m c p)"

text \<open>Modelled from the spec: \<^verbatim>\<open>pddm.mk_val\<close>, the constant term of a ring value.\<close>

definition mk_val :: "nat \<Rightarrow> int \<Rightarrow> pdd" where
  "mk_val w n = add_mono w [] n []"

text \<open>Modelled from the spec: the term that is the bare variable \<open>v\<close>.\<close>

definition mk_var :: "nat \<Rightarrow> pvar \<Rightarrow> pdd" where
  "mk_var w v = add_mono w [v] 1 []"

text \<open>Modelled from the spec: multiplication of terms (\<^verbatim>\<open>operator*\<close> on \<^verbatim>\<open>pdd\<close>).\<close>

definition pdd_mul :: "nat \<Rightarrow> pdd \<Rightarrow> pdd \<Rightarrow> pdd" where
  "pdd_mul w p q =
     foldr (\<lambda>(m1, c1) acc.
              foldr (\<lambda>(m2, c2) acc'. add_mono w (sort (m1 @ m2)) (c1 * c2) acc') q acc)
           p []"

text \<open>Modelled from the spec: \<^verbatim>\<open>degree_in(var)\<close>, the degree of a term in a variable.\<close>

definition pdd_degree :: "pdd \<Rightarrow> pvar \<Rightarrow> nat" where
  "pdd_degree p v = foldr (\<lambda>(m, c) d. max (count_list m v) d) p 0"

text \<open>
  Modelled from the spec: \<^verbatim>\<open>factor(var, power, \<rightarrow>remainder)\<close>.  The call succeeds when the
  term is \<open>v ^ d\<close> times a cofactor, with nothing left over, and gives the cofactor.
\<close>

definition pdd_factor :: "nat \<Rightarrow> pdd \<Rightarrow> pvar \<Rightarrow> nat \<Rightarrow> pdd option" where
  "pdd_factor w p v d =
     (if list_all (\<lambda>(m, c). d \<le> count_list m v) p
      then Some (foldr (\<lambda>(m, c) acc. add_mono w ((remove1 v ^^ d) m) c acc) p [])
      else None)"

text \<open>
  Modelled from the spec: \<^verbatim>\<open>exact_divide(constant, \<rightarrow>quotient)\<close>; the division is the
  division of integers, and it succeeds when the constant divides every coefficient.
\<close>

definition try_div :: "pdd \<Rightarrow> int \<Rightarrow> pdd option" where
  "try_div p c =
     (if c \<noteq> 0 \<and> list_all (\<lambda>(m, k). c dvd k) p
      then Some (map (\<lambda>(m, k). (m, k div c)) p)
      else None)"

text \<open>
  Modelled from the spec: a unary term is a single variable scaled by a ring constant;
  \<^verbatim>\<open>hi().val()\<close> is that constant.
\<close>

fun is_unary :: "pdd \<Rightarrow> bool" where
  "is_unary [([x], c)] = True"
| "is_unary p = False"

fun hi_val :: "pdd \<Rightarrow> int" where
  "hi_val [(m, c)] = c"
| "hi_val p = 0"

text \<open>Modelled from the spec: \<^verbatim>\<open>is_variable()\<close>, the term is a bare variable.\<close>

fun is_var :: "pdd \<Rightarrow> bool" where
  "is_var [([x], c)] = (c = 1)"
| "is_var p = False"

text \<open>
  Modelled from the spec: \<^verbatim>\<open>var()\<close>, the variable of a bare variable or of a unary term.
  The spec speaks of it for these terms only; for any other term the model gives the
  largest variable that occurs in it, and \<open>0\<close> for a constant.
\<close>

definition pdd_var :: "pdd \<Rightarrow> pvar" where
  "pdd_var p = foldr max (concat (map fst p)) 0"

text \<open>The value of a term under a total valuation of the variables.\<close>

definition pdd_eval :: "nat \<Rightarrow> (pvar \<Rightarrow> int) \<Rightarrow> pdd \<Rightarrow> int" where
  "pdd_eval w \<sigma> p = (\<Sum>(m, c)\<leftarrow>p. c * prod_list (map \<sigma> m)) mod 2 ^ w"

subsection \<open>Constraints, literals and inequalities\<close>

text \<open>
  Modelled from the spec: constraints and signed constraints (literals).  A literal is a
  constraint paired with a polarity.  \<open>Ule p q\<close> is \<open>p \<le> q\<close> in the unsigned order,
  \<open>Eq p\<close> is \<open>p = 0\<close>.
\<close>

datatype constraint = Ule pdd pdd | Eq pdd

type_synonym signed_constraint = "bool \<times> constraint"

definition negate :: "signed_constraint \<Rightarrow> signed_constraint" where
  "negate l = (\<not> fst l, snd l)"

fun is_ule :: "signed_constraint \<Rightarrow> bool" where
  "is_ule (b, Ule p q) = True"
| "is_ule (b, Eq p) = False"

text \<open>
  Modelled from the spec: the inequality view \<open>(lhs, rhs, strict)\<close> of a literal, with
  the constraint it comes from.  A positive \<open>p \<le> q\<close> is the non-strict \<open>p \<le> q\<close>; a
  negative one is the strict \<open>q < p\<close>.  Saturation asks for the view of a literal only
  after \<^verbatim>\<open>is_ule\<close>; the equation for \<open>Eq\<close> makes the function total and is never used.
\<close>

record inequality =
  lhs :: pdd
  rhs :: pdd
  is_strict :: bool
  src :: constraint

fun as_inequality :: "signed_constraint \<Rightarrow> inequality" where
  "as_inequality (b, Ule p q) =
     (if b then \<lparr>lhs = p, rhs = q, is_strict = False, src = Ule p q\<rparr>
      else \<lparr>lhs = q, rhs = p, is_strict = True, src = Ule p q\<rparr>)"
| "as_inequality (b, Eq p) = \<lparr>lhs = p, rhs = [], is_strict = False, src = Eq p\<rparr>"

definition as_signed_constraint :: "inequality \<Rightarrow> signed_constraint" where
  "as_signed_constraint i = (\<not> is_strict i, src i)"

text \<open>Truth of a literal under a total valuation.\<close>

fun holds :: "nat \<Rightarrow> (pvar \<Rightarrow> int) \<Rightarrow> signed_constraint \<Rightarrow> bool" where
  "holds w \<sigma> (b, Ule p q) = (b = (pdd_eval w \<sigma> p \<le> pdd_eval w \<sigma> q))"
| "holds w \<sigma> (b, Eq p) = (b = (pdd_eval w \<sigma> p = 0))"

subsection \<open>The solver state\<close>

datatype lbool = l_true | l_false | l_undef

text \<open>
  Modelled from the spec: what saturation reads of the solver.  \<open>bit_size\<close> is the width
  \<open>w\<close> of the ring (\<^verbatim>\<open>pddm.power_of_2()\<close>), \<open>assignment\<close> the current partial model,
  \<open>bvalue\<close> the truth value of a literal on the decision trail, \<open>max_viable\<close> the
  viable-range tracker's maximum of a variable, \<open>cjust\<close> the bound-justification
  literals of a variable.
\<close>

record solver =
  bit_size :: nat
  assignment :: "pvar \<Rightarrow> int option"
  bvalue :: "signed_constraint \<Rightarrow> lbool"
  max_viable :: "pvar \<Rightarrow> int"
  cjust :: "pvar \<Rightarrow> signed_constraint list"

definition var :: "solver \<Rightarrow> pvar \<Rightarrow> pdd" where
  "var s v = mk_var (bit_size s) v"

text \<open>
  Modelled from the spec: \<^verbatim>\<open>value_of(var)\<close>, for assigned variables only.  Saturation
  reads it after the variable has been evaluated.
\<close>

definition get_value :: "solver \<Rightarrow> pvar \<Rightarrow> int" where
  "get_value s v = (case assignment s v of Some n \<Rightarrow> n | None \<Rightarrow> 0)"

text \<open>
  Modelled from the spec: \<^verbatim>\<open>evaluate(term) \<rightarrow> value | unassigned\<close> under the current
  partial model.
\<close>

definition try_eval :: "solver \<Rightarrow> pdd \<Rightarrow> int option" where
  "try_eval s p =
     (if list_all (\<lambda>v. assignment s v \<noteq> None) (concat (map fst p))
      then Some (pdd_eval (bit_size s) (get_value s) p)
      else None)"

text \<open>Modelled from the spec: the constraint constructors of the solver.\<close>

definition ule :: "pdd \<Rightarrow> pdd \<Rightarrow> signed_constraint" where
  "ule p q = (True, Ule p q)"

definition ult :: "pdd \<Rightarrow> pdd \<Rightarrow> signed_constraint" where
  "ult p q = negate (ule q p)"

definition eq :: "pdd \<Rightarrow> signed_constraint" where
  "eq p = (True, Eq p)"

text \<open>
  Modelled from the spec: the model-truth query of a literal.  It is undetermined, so
  not false, when a variable of the literal is unassigned.
\<close>

fun is_currently_false :: "solver \<Rightarrow> signed_constraint \<Rightarrow> bool" where
  "is_currently_false s (b, Ule p q) =
     (case try_eval s p of None \<Rightarrow> False
      | Some a \<Rightarrow> (case try_eval s q of None \<Rightarrow> False | Some c \<Rightarrow> b \<noteq> (a \<le> c)))"
| "is_currently_false s (b, Eq p) =
     (case try_eval s p of None \<Rightarrow> False | Some a \<Rightarrow> b \<noteq> (a = 0))"

subsection \<open>The conflict core\<close>

text \<open>
  Modelled from the spec: the conflict core and its interface.  \<open>lits\<close> is what
  iterating the core gives, \<open>focus\<close> its working literal, \<open>pinned\<close> the literals pinned
  by \<^verbatim>\<open>keep\<close>.  \<open>calls\<close> is a history, not data of the core: every \<^verbatim>\<open>keep\<close>,
  \<^verbatim>\<open>insert\<close> and \<^verbatim>\<open>set\<close> made on the core, oldest first, kept so that the order of
  the calls can be stated.  \<^verbatim>\<open>insert\<close> adds a literal to the set of literals, \<^verbatim>\<open>set\<close>
  replaces the working literal, \<^verbatim>\<open>keep\<close> pins a literal.
\<close>

datatype core_call = Keep signed_constraint | Insert signed_constraint | Set signed_constraint

record conflict_core =
  lits :: "signed_constraint list"
  focus :: "signed_constraint option"
  pinned :: "signed_constraint list"
  calls :: "core_call list"

definition core_keep :: "conflict_core \<Rightarrow> signed_constraint \<Rightarrow> conflict_core" where
  "core_keep core l = core\<lparr>pinned := pinned core @ [l], calls := calls core @ [Keep l]\<rparr>"

definition core_insert :: "conflict_core \<Rightarrow> signed_constraint \<Rightarrow> conflict_core" where
  "core_insert core l =
     core\<lparr>lits := (if l \<in> set (lits core) then lits core else lits core @ [l]),
          calls := calls core @ [Insert l]\<rparr>"

definition core_set :: "conflict_core \<Rightarrow> signed_constraint \<Rightarrow> conflict_core" where
  "core_set core l = core\<lparr>focus := Some l, calls := calls core @ [Set l]\<rparr>"

subsection \<open>ineq and propagate\<close>

definition ineq :: "bool \<Rightarrow> pdd \<Rightarrow> pdd \<Rightarrow> signed_constraint" where
  "ineq strict l r = (if strict then ult l r else ule l r)"

text \<open>
  \<^verbatim>\<open>propagate(core, crit1, crit2, c, new_constraints)\<close>: the result is the returned
  flag and the core after the call.
\<close>

definition propagate ::
  "solver \<Rightarrow> conflict_core \<Rightarrow> inequality \<Rightarrow> inequality \<Rightarrow> signed_constraint \<Rightarrow>
   signed_constraint list \<Rightarrow> bool \<times> conflict_core" where
  "propagate s core crit1 crit2 c new_constraints =
     (let crit1_false = is_currently_false s (as_signed_constraint crit1);
          crit2_false = is_currently_false s (as_signed_constraint crit2)
      in if \<not> crit1_false \<and> \<not> crit2_false then (False, core)
         else
           let is_bool_false = (bvalue s c = l_false);
               is_model_false = is_currently_false s c
           in if \<not> is_bool_false \<and> \<not> is_model_false then (False, core)
              else
                let core1 = core_keep core (as_signed_constraint crit1);
                    core2 = core_keep core1 (as_signed_constraint crit2);
                    core3 = (if is_bool_false then core_insert core2 (negate c)
                             else core_set core2 c)
                in (True, foldl core_insert core3 new_constraints))"

definition propagate_ineq ::
  "solver \<Rightarrow> conflict_core \<Rightarrow> inequality \<Rightarrow> inequality \<Rightarrow> bool \<Rightarrow> pdd \<Rightarrow> pdd \<Rightarrow>
   signed_constraint list \<Rightarrow> bool \<times> conflict_core" where
  "propagate_ineq s core crit1 crit2 strict l r new_constraints =
     propagate s core crit1 crit2 (ineq strict l r) new_constraints"

subsection \<open>push_omega_bisect and push_omega\<close>

text \<open>
  The joint bisection loop of \<^verbatim>\<open>push_omega_bisect\<close> (the first \<^verbatim>\<open>while\<close>).  The values are
  the rationals of the source, which are integers here; \<^verbatim>\<open>div\<close> is the division of
  integers.  The loop may run forever: the function is partial, and \<open>None\<close> says that
  it does not return.
\<close>

partial_function (option) bisect_joint ::
  "int \<Rightarrow> int \<Rightarrow> int \<Rightarrow> int \<Rightarrow> int \<Rightarrow> (int \<times> int \<times> int \<times> int) option" where
  "bisect_joint bound x_lo x_hi y_lo y_hi =
     (if x_lo < x_hi \<or> y_lo < y_hi then
        (if bound \<le> ((x_hi + x_lo) div 2) * ((y_hi + y_lo) div 2)
         then bisect_joint bound x_lo ((x_hi + x_lo) div 2 - 1) y_lo ((y_hi + y_lo) div 2 - 1)
         else bisect_joint bound ((x_hi + x_lo) div 2) x_hi ((y_hi + y_lo) div 2) y_hi)
      else Some (x_lo, x_hi, y_lo, y_hi))"

text \<open>The loop that extends \<open>x_lo\<close> with \<open>y_lo\<close> fixed (the second \<^verbatim>\<open>while\<close>).\<close>

partial_function (option) bisect_x :: "int \<Rightarrow> int \<Rightarrow> int \<Rightarrow> int \<Rightarrow> (int \<times> int) option" where
  "bisect_x bound y_lo x_lo x_hi =
     (if x_lo < x_hi then
        (if bound \<le> ((x_hi + x_lo) div 2) * y_lo
         then bisect_x bound y_lo x_lo ((x_hi + x_lo) div 2 - 1)
         else bisect_x bound y_lo ((x_hi + x_lo) div 2) x_hi)
      else Some (x_lo, x_hi))"

text \<open>The loop that extends \<open>y_lo\<close> with \<open>x_lo\<close> fixed (the third \<^verbatim>\<open>while\<close>).\<close>

partial_function (option) bisect_y :: "int \<Rightarrow> int \<Rightarrow> int \<Rightarrow> int \<Rightarrow> (int \<times> int) option" where
  "bisect_y bound x_lo y_lo y_hi =
     (if y_lo < y_hi then
        (if bound \<le> ((y_hi + y_lo) div 2) * x_lo
         then bisect_y bound x_lo y_lo ((y_hi + y_lo) div 2 - 1)
         else bisect_y bound x_lo ((y_hi + y_lo) div 2) y_hi)
      else Some (y_lo, y_hi))"

declare bisect_joint.simps [code] bisect_x.simps [code] bisect_y.simps [code]

text \<open>
  The search of \<^verbatim>\<open>push_omega_bisect\<close>, from the initial brackets to the pair
  \<open>(x_lo, y_lo)\<close> the literals are built from.  The \<^verbatim>\<open>SASSERT\<close>s of the source are
  checks of debug builds; they do not change the result.
\<close>

definition bisect_bounds :: "int \<Rightarrow> int \<Rightarrow> int \<Rightarrow> int \<Rightarrow> int \<Rightarrow> (int \<times> int) option" where
  "bisect_bounds bound x_val x_max y_val y_max =
     (case bisect_joint bound x_val x_max y_val y_max of
        None \<Rightarrow> None
      | Some (x_lo, x_hi, y_lo, y_hi) \<Rightarrow>
          if (x_lo + 1) * y_lo < bound then
            (case bisect_x bound y_lo x_lo x_max of
               None \<Rightarrow> None
             | Some (x_lo', x_hi') \<Rightarrow> Some (x_lo', y_lo))
          else if x_lo * (y_lo + 1) < bound then
            (case bisect_y bound x_lo y_lo y_max of
               None \<Rightarrow> None
             | Some (y_lo', y_hi') \<Rightarrow> Some (x_lo, y_lo'))
          else Some (x_lo, y_lo))"

text \<open>
  \<^verbatim>\<open>push_omega_bisect\<close>: the result is \<^verbatim>\<open>new_constraints\<close> after the call.  \<open>None\<close> says
  that the call does not return: a \<^verbatim>\<open>VERIFY\<close> fails (a term does not evaluate) or a loop
  runs forever.
\<close>

definition push_omega_bisect ::
  "solver \<Rightarrow> signed_constraint list \<Rightarrow> pdd \<Rightarrow> int \<Rightarrow> pdd \<Rightarrow> int \<Rightarrow>
   signed_constraint list option" where
  "push_omega_bisect s new_constraints x x_max y y_max =
     (let bound = 2 ^ bit_size s in
      case try_eval s x of
        None \<Rightarrow> None
      | Some x_val \<Rightarrow>
          (case try_eval s y of
             None \<Rightarrow> None
           | Some y_val \<Rightarrow>
               (case bisect_bounds bound x_val x_max y_val y_max of
                  None \<Rightarrow> None
                | Some (x_lo, y_lo) \<Rightarrow>
                    Some (new_constraints @
                          [ule x (mk_val (bit_size s) x_lo),
                           ule y (mk_val (bit_size s) y_lo)]))))"

definition push_omega ::
  "solver \<Rightarrow> signed_constraint list \<Rightarrow> pdd \<Rightarrow> pdd \<Rightarrow> signed_constraint list option" where
  "push_omega s new_constraints x y =
     (let bound = 2 ^ bit_size s;
          x_max = (if is_var x then max_viable s (pdd_var x) else bound - 1);
          y_max = (if is_var y then max_viable s (pdd_var y) else bound - 1)
      in if bound \<le> x_max * y_max
         then push_omega_bisect s new_constraints x x_max y y_max
         else Some (new_constraints @ cjust s (pdd_var y) @ cjust s (pdd_var x)))"

subsection \<open>Shape predicates\<close>

text \<open>
  A matcher of the source returns a flag and writes what it matched through its
  reference parameters; the callers read these only after a match.  In the model a
  matcher returns \<open>None\<close> for no match and \<open>Some\<close> of what it matched otherwise.
\<close>

text \<open>Match [v] \<open>.. \<le> v\<close>.\<close>

definition is_l_v :: "solver \<Rightarrow> pvar \<Rightarrow> inequality \<Rightarrow> bool" where
  "is_l_v s v i = (rhs i = var s v)"

text \<open>Match [v] \<open>v \<le> ..\<close>.\<close>

definition is_g_v :: "solver \<Rightarrow> pvar \<Rightarrow> inequality \<Rightarrow> bool" where
  "is_g_v s v i = (lhs i = var s v)"

text \<open>Match \<open>xy = x * Y\<close>.\<close>

definition is_xY :: "solver \<Rightarrow> pvar \<Rightarrow> pdd \<Rightarrow> pdd option" where
  "is_xY s x xy =
     (if pdd_degree xy x = 1 then pdd_factor (bit_size s) xy x 1 else None)"

text \<open>Match [x] \<open>y \<le> a * x\<close>; the result is \<open>(a, y)\<close>.\<close>

definition is_Y_l_Ax :: "solver \<Rightarrow> pvar \<Rightarrow> inequality \<Rightarrow> (pdd \<times> pdd) option" where
  "is_Y_l_Ax s x d =
     (case is_xY s x (rhs d) of None \<Rightarrow> None | Some a \<Rightarrow> Some (a, lhs d))"

text \<open>Match [coeff * x] \<open>coeff * x * Y\<close>.\<close>

definition is_coeffxY :: "solver \<Rightarrow> pdd \<Rightarrow> pdd \<Rightarrow> pdd option" where
  "is_coeffxY s x p =
     (if is_unary x then
        (case try_div p (hi_val x) of
           None \<Rightarrow> None
         | Some xy \<Rightarrow> pdd_factor (bit_size s) xy (pdd_var x) 1)
      else None)"

text \<open>Determine whether the values of \<open>x * y\<close> is non-overflowing.\<close>

definition is_non_overflow :: "solver \<Rightarrow> pdd \<Rightarrow> pdd \<Rightarrow> bool" where
  "is_non_overflow s x y =
     (case try_eval s x of
        None \<Rightarrow> False
      | Some x_val \<Rightarrow>
          (case try_eval s y of
             None \<Rightarrow> False
           | Some y_val \<Rightarrow> x_val * y_val < 2 ^ bit_size s))"

text \<open>Match [v] \<open>v * x \<le> z * x\<close> with \<open>x\<close> a variable; the result is \<open>(x, z)\<close>.\<close>

definition is_Xy_l_XZ :: "solver \<Rightarrow> pvar \<Rightarrow> inequality \<Rightarrow> (pdd \<times> pdd) option" where
  "is_Xy_l_XZ s v c =
     (case is_xY s v (lhs c) of
        None \<Rightarrow> None
      | Some x \<Rightarrow> (case is_coeffxY s x (rhs c) of None \<Rightarrow> None | Some z \<Rightarrow> Some (x, z)))"

text \<open>Match [z] \<open>y * x \<le> z * x\<close> with \<open>x\<close> a variable; the result is \<open>(x, y)\<close>.\<close>

definition is_YX_l_zX :: "solver \<Rightarrow> pvar \<Rightarrow> inequality \<Rightarrow> (pdd \<times> pdd) option" where
  "is_YX_l_zX s z c =
     (case is_xY s z (rhs c) of
        None \<Rightarrow> None
      | Some x \<Rightarrow> (case is_coeffxY s x (lhs c) of None \<Rightarrow> None | Some y \<Rightarrow> Some (x, y)))"

text \<open>Match [x] \<open>x * Y \<le> x * Z\<close>; the result is \<open>(Y, Z)\<close>.\<close>

definition is_xY_l_xZ :: "solver \<Rightarrow> pvar \<Rightarrow> inequality \<Rightarrow> (pdd \<times> pdd) option" where
  "is_xY_l_xZ s x c =
     (case is_xY s x (lhs c) of
        None \<Rightarrow> None
      | Some y \<Rightarrow> (case is_xY s x (rhs c) of None \<Rightarrow> None | Some z \<Rightarrow> Some (y, z)))"

subsection \<open>The inference rules\<close>

text \<open>
  A rule returns its flag and the core after the call; \<open>None\<close> says that the call does
  not return (\<^verbatim>\<open>push_omega\<close> did not).
\<close>

text \<open>
  \<^verbatim>\<open>if (rule(..., core, ...)) return true;\<close> followed by the rest \<open>k\<close> of the function:
  \<open>r\<close> is what the rule call gave.  When the flag is set the function returns true
  with the core as the call left it; otherwise the rest runs on that core.
\<close>

definition or_try ::
  "(bool \<times> conflict_core) option \<Rightarrow> (conflict_core \<Rightarrow> (bool \<times> conflict_core) option) \<Rightarrow>
   (bool \<times> conflict_core) option" where
  "or_try r k =
     (case r of
        None \<Rightarrow> None
      | Some (b, core') \<Rightarrow> if b then Some (True, core') else k core')"

text \<open>
  [x] \<open>zx > yx  \<Longrightarrow>  \<Omega>*(x,y) \<or> z > y\<close>,
  [x] \<open>yx \<le> zx  \<Longrightarrow>  \<Omega>*(x,y) \<or> y \<le> z \<or> x = 0\<close>.
\<close>

definition try_ugt_x ::
  "solver \<Rightarrow> pvar \<Rightarrow> conflict_core \<Rightarrow> inequality \<Rightarrow> (bool \<times> conflict_core) option" where
  "try_ugt_x s v core c =
     (let x = var s v in
      case is_xY_l_xZ s v c of
        None \<Rightarrow> Some (False, core)
      | Some (y, z) \<Rightarrow>
          if \<not> is_non_overflow s x y then Some (False, core)
          else if \<not> is_strict c \<and> get_value s v = 0 then Some (False, core)
          else
            (case push_omega s (if \<not> is_strict c then [negate (eq x)] else []) x y of
               None \<Rightarrow> None
             | Some new_constraints \<Rightarrow>
                 Some (propagate_ineq s core c c (is_strict c) y z new_constraints)))"

text \<open>
  [y] \<open>z' \<le> y \<and> zx > yx  \<Longrightarrow>  \<Omega>*(x,y) \<or> zx > z'x\<close>,
  [y] \<open>z' \<le> y \<and> yx \<le> zx  \<Longrightarrow>  \<Omega>*(x,y) \<or> z'x \<le> zx\<close>.
  The source overloads the name of a paired rule: the function on one literal scans the
  core for a companion, the function on two literals (here with the suffix \<open>_pair\<close>)
  builds the lemma.  The \<^verbatim>\<open>SASSERT\<close>s that re-check the match are checks of debug
  builds.
\<close>

definition try_ugt_y_pair ::
  "solver \<Rightarrow> pvar \<Rightarrow> conflict_core \<Rightarrow> inequality \<Rightarrow> inequality \<Rightarrow> pdd \<Rightarrow> pdd \<Rightarrow>
   (bool \<times> conflict_core) option" where
  "try_ugt_y_pair s v core le_y yx_l_zx x z =
     (let y = var s v in
      if \<not> is_non_overflow s x y then Some (False, core)
      else
        let z_prime = lhs le_y in
        case push_omega s [as_signed_constraint le_y, as_signed_constraint yx_l_zx] x y of
          None \<Rightarrow> None
        | Some new_constraints \<Rightarrow>
            Some (propagate_ineq s core le_y yx_l_zx (is_strict yx_l_zx \<or> is_strict le_y)
                    (pdd_mul (bit_size s) z_prime x) (pdd_mul (bit_size s) z x)
                    new_constraints))"

fun try_ugt_y_loop ::
  "solver \<Rightarrow> pvar \<Rightarrow> inequality \<Rightarrow> signed_constraint list \<Rightarrow> conflict_core \<Rightarrow>
   (bool \<times> conflict_core) option" where
  "try_ugt_y_loop s v c [] core = Some (False, core)"
| "try_ugt_y_loop s v c (dd # ds) core =
     (if \<not> is_ule dd then try_ugt_y_loop s v c ds core
      else
        (case is_Xy_l_XZ s v (as_inequality dd) of
           None \<Rightarrow> try_ugt_y_loop s v c ds core
         | Some (x, z) \<Rightarrow>
             or_try (try_ugt_y_pair s v core c (as_inequality dd) x z)
               (\<lambda>core'. try_ugt_y_loop s v c ds core')))"

definition try_ugt_y ::
  "solver \<Rightarrow> pvar \<Rightarrow> conflict_core \<Rightarrow> inequality \<Rightarrow> (bool \<times> conflict_core) option" where
  "try_ugt_y s v core c =
     (if \<not> is_l_v s v c then Some (False, core)
      else try_ugt_y_loop s v c (lits core) core)"

text \<open>
  [x] \<open>y \<le> ax \<and> x \<le> z\<close> (non-overflow case) \<open>\<Longrightarrow>  \<Omega>*(a, z) \<or> y \<le> az\<close>.
\<close>

definition try_y_l_ax_and_x_l_z_pair ::
  "solver \<Rightarrow> pvar \<Rightarrow> conflict_core \<Rightarrow> inequality \<Rightarrow> inequality \<Rightarrow> pdd \<Rightarrow> pdd \<Rightarrow>
   (bool \<times> conflict_core) option" where
  "try_y_l_ax_and_x_l_z_pair s x core x_l_z y_l_ax a y =
     (let z = rhs x_l_z in
      if \<not> is_non_overflow s a z then Some (False, core)
      else
        case push_omega s [as_signed_constraint x_l_z, as_signed_constraint y_l_ax] a z of
          None \<Rightarrow> None
        | Some new_constraints \<Rightarrow>
            Some (propagate_ineq s core x_l_z y_l_ax (is_strict x_l_z \<or> is_strict y_l_ax)
                    y (pdd_mul (bit_size s) a z) new_constraints))"

fun try_y_l_ax_and_x_l_z_loop ::
  "solver \<Rightarrow> pvar \<Rightarrow> inequality \<Rightarrow> signed_constraint list \<Rightarrow> conflict_core \<Rightarrow>
   (bool \<times> conflict_core) option" where
  "try_y_l_ax_and_x_l_z_loop s x c [] core = Some (False, core)"
| "try_y_l_ax_and_x_l_z_loop s x c (dd # ds) core =
     (if \<not> is_ule dd then try_y_l_ax_and_x_l_z_loop s x c ds core
      else
        (case is_Y_l_Ax s x (as_inequality dd) of
           None \<Rightarrow> try_y_l_ax_and_x_l_z_loop s x c ds core
         | Some (a, y) \<Rightarrow>
             or_try (try_y_l_ax_and_x_l_z_pair s x core c (as_inequality dd) a y)
               (\<lambda>core'. try_y_l_ax_and_x_l_z_loop s x c ds core')))"

definition try_y_l_ax_and_x_l_z ::
  "solver \<Rightarrow> pvar \<Rightarrow> conflict_core \<Rightarrow> inequality \<Rightarrow> (bool \<times> conflict_core) option" where
  "try_y_l_ax_and_x_l_z s x core c =
     (if \<not> is_g_v s x c then Some (False, core)
      else try_y_l_ax_and_x_l_z_loop s x c (lits core) core)"

text \<open>
  [z] \<open>z \<le> y' \<and> zx > yx  \<Longrightarrow>  \<Omega>*(x,y') \<or> y'x > yx\<close>,
  [z] \<open>z \<le> y' \<and> yx \<le> zx  \<Longrightarrow>  \<Omega>*(x,y') \<or> yx \<le> y'x\<close>.
\<close>

definition try_ugt_z_pair ::
  "solver \<Rightarrow> pvar \<Rightarrow> conflict_core \<Rightarrow> inequality \<Rightarrow> inequality \<Rightarrow> pdd \<Rightarrow> pdd \<Rightarrow>
   (bool \<times> conflict_core) option" where
  "try_ugt_z_pair s z core z_l_y yx_l_zx x y =
     (let y_prime = rhs z_l_y in
      if \<not> is_non_overflow s x y_prime then Some (False, core)
      else
        case push_omega s [as_signed_constraint z_l_y, as_signed_constraint yx_l_zx]
               x y_prime of
          None \<Rightarrow> None
        | Some new_constraints \<Rightarrow>
            Some (propagate_ineq s core z_l_y yx_l_zx (is_strict z_l_y \<or> is_strict yx_l_zx)
                    (pdd_mul (bit_size s) y x) (pdd_mul (bit_size s) y_prime x)
                    new_constraints))"

fun try_ugt_z_loop ::
  "solver \<Rightarrow> pvar \<Rightarrow> inequality \<Rightarrow> signed_constraint list \<Rightarrow> conflict_core \<Rightarrow>
   (bool \<times> conflict_core) option" where
  "try_ugt_z_loop s z c [] core = Some (False, core)"
| "try_ugt_z_loop s z c (dd # ds) core =
     (if \<not> is_ule dd then try_ugt_z_loop s z c ds core
      else
        (case is_YX_l_zX s z (as_inequality dd) of
           None \<Rightarrow> try_ugt_z_loop s z c ds core
         | Some (x, y) \<Rightarrow>
             or_try (try_ugt_z_pair s z core c (as_inequality dd) x y)
               (\<lambda>core'. try_ugt_z_loop s z c ds core')))"

definition try_ugt_z ::
  "solver \<Rightarrow> pvar \<Rightarrow> conflict_core \<Rightarrow> inequality \<Rightarrow> (bool \<times> conflict_core) option" where
  "try_ugt_z s z core c =
     (if \<not> is_g_v s z c then Some (False, core)
      else try_ugt_z_loop s z c (lits core) core)"

subsection \<open>The entry point\<close>

fun perform_loop ::
  "solver \<Rightarrow> pvar \<Rightarrow> signed_constraint list \<Rightarrow> conflict_core \<Rightarrow>
   (bool \<times> conflict_core) option" where
  "perform_loop s v [] core = Some (False, core)"
| "perform_loop s v (c1 # cs) core =
     (if \<not> is_ule c1 then perform_loop s v cs core
      else
        or_try (try_ugt_x s v core (as_inequality c1)) (\<lambda>core1.
        or_try (try_ugt_y s v core1 (as_inequality c1)) (\<lambda>core2.
        or_try (try_ugt_z s v core2 (as_inequality c1)) (\<lambda>core3.
        or_try (try_y_l_ax_and_x_l_z s v core3 (as_inequality c1)) (\<lambda>core4.
        perform_loop s v cs core4)))))"

definition perform :: "solver \<Rightarrow> pvar \<Rightarrow> conflict_core \<Rightarrow> (bool \<times> conflict_core) option" where
  "perform s v core = perform_loop s v (lits core) core"

subsection \<open>The entry point, as the specification words it\<close>

text \<open>
  The specification's reading of \<^verbatim>\<open>perform\<close>: the inequality literals of the core in
  iteration order, for each of them the four rules in the fixed order, every attempt on
  the core as it was given; the first attempt that succeeds decides.
\<close>

fun first_fire ::
  "conflict_core \<Rightarrow> (bool \<times> conflict_core) option list \<Rightarrow> (bool \<times> conflict_core) option" where
  "first_fire core [] = Some (False, core)"
| "first_fire core (a # as) =
     (case a of
        None \<Rightarrow> None
      | Some (b, core') \<Rightarrow> if b then Some (True, core') else first_fire core as)"

definition rule_order ::
  "(solver \<Rightarrow> pvar \<Rightarrow> conflict_core \<Rightarrow> inequality \<Rightarrow> (bool \<times> conflict_core) option) list" where
  "rule_order = [try_ugt_x, try_ugt_y, try_ugt_z, try_y_l_ax_and_x_l_z]"

definition attempts ::
  "solver \<Rightarrow> pvar \<Rightarrow> conflict_core \<Rightarrow> (bool \<times> conflict_core) option list" where
  "attempts s v core =
     concat (map (\<lambda>c1. map (\<lambda>rule. rule s v core (as_inequality c1)) rule_order)
                 (filter is_ule (lits core)))"

definition perform_spec :: "solver \<Rightarrow> pvar \<Rightarrow> conflict_core \<Rightarrow> (bool \<times> conflict_core) option" where
  "perform_spec s v core = first_fire core (attempts s v core)"

text \<open>
  The outcome \<open>r\<close> of a call on \<open>core\<close> respects the frame: if the call returns false,
  the core is as it was.
\<close>

definition framed :: "conflict_core \<Rightarrow> (bool \<times> conflict_core) option \<Rightarrow> bool" where
  "framed core r = (case r of None \<Rightarrow> True | Some (b, core') \<Rightarrow> b \<or> core' = core)"

subsection \<open>When a rule's match and guards succeed\<close>

text \<open>
  The conditions under which a rule gets as far as \<^verbatim>\<open>push_omega\<close>: its shape matches
  (for a paired rule, on the literal and on a companion literal of the core) and its
  guards hold.
\<close>

definition ugt_x_applies :: "solver \<Rightarrow> pvar \<Rightarrow> inequality \<Rightarrow> bool" where
  "ugt_x_applies s v c =
     (case is_xY_l_xZ s v c of
        None \<Rightarrow> False
      | Some (y, z) \<Rightarrow>
          is_non_overflow s (var s v) y \<and> \<not> (\<not> is_strict c \<and> get_value s v = 0))"

definition ugt_y_applies :: "solver \<Rightarrow> pvar \<Rightarrow> conflict_core \<Rightarrow> inequality \<Rightarrow> bool" where
  "ugt_y_applies s v core c =
     (is_l_v s v c \<and>
      list_ex (\<lambda>dd. is_ule dd \<and>
                 (case is_Xy_l_XZ s v (as_inequality dd) of
                    None \<Rightarrow> False
                  | Some (x, z) \<Rightarrow> is_non_overflow s x (var s v)))
              (lits core))"

definition ugt_z_applies :: "solver \<Rightarrow> pvar \<Rightarrow> conflict_core \<Rightarrow> inequality \<Rightarrow> bool" where
  "ugt_z_applies s z core c =
     (is_g_v s z c \<and>
      list_ex (\<lambda>dd. is_ule dd \<and>
                 (case is_YX_l_zX s z (as_inequality dd) of
                    None \<Rightarrow> False
                  | Some (x, y) \<Rightarrow> is_non_overflow s x (rhs c)))
              (lits core))"

definition y_l_ax_and_x_l_z_applies ::
  "solver \<Rightarrow> pvar \<Rightarrow> conflict_core \<Rightarrow> inequality \<Rightarrow> bool" where
  "y_l_ax_and_x_l_z_applies s x core c =
     (is_g_v s x c \<and>
      list_ex (\<lambda>dd. is_ule dd \<and>
                 (case is_Y_l_Ax s x (as_inequality dd) of
                    None \<Rightarrow> False
                  | Some (a, y) \<Rightarrow> is_non_overflow s a (rhs c)))
              (lits core))"

definition rule_applies :: "solver \<Rightarrow> pvar \<Rightarrow> conflict_core \<Rightarrow> inequality \<Rightarrow> bool" where
  "rule_applies s v core c =
     (ugt_x_applies s v c \<or> ugt_y_applies s v core c \<or> ugt_z_applies s v core c \<or>
      y_l_ax_and_x_l_z_applies s v core c)"

text \<open>
  The maximum \<^verbatim>\<open>push_omega\<close> takes for a term: the viable-range tracker's maximum for a
  bare variable, \<open>bound - 1\<close> otherwise.
\<close>

definition omega_max :: "solver \<Rightarrow> pdd \<Rightarrow> int" where
  "omega_max s x = (if is_var x then max_viable s (pdd_var x) else 2 ^ bit_size s - 1)"

subsection \<open>Concrete states\<close>

text \<open>
  The scenario of the specification at width 4: the core holds the non-strict literal
  \<open>v * 2 \<le> v * 5\<close> for the variable \<open>v = 0\<close>, whose current value is 3.  The
  specification leaves the rest of the state open; here the viable maximum of \<open>v\<close> is 7,
  no literal has a truth value on the trail, and no bound is justified.
\<close>

definition scenario_lit :: signed_constraint where
  "scenario_lit =
     ule (pdd_mul 4 (mk_var 4 0) (mk_val 4 2)) (pdd_mul 4 (mk_var 4 0) (mk_val 4 5))"

definition scenario_solver :: solver where
  "scenario_solver =
     \<lparr>bit_size = 4, assignment = (\<lambda>v. if v = 0 then Some 3 else None),
      bvalue = (\<lambda>l. l_undef), max_viable = (\<lambda>v. 7), cjust = (\<lambda>v. [])\<rparr>"

definition scenario_core :: conflict_core where
  "scenario_core = \<lparr>lits = [scenario_lit], focus = None, pinned = [], calls = []\<rparr>"

text \<open>
  A core for the same solver state with a literal that is no inequality, \<open>v \<noteq> 0\<close>, and
  an inequality between constants, \<open>2 \<le> 5\<close>, that no rule matches.
\<close>

definition idle_core :: conflict_core where
  "idle_core =
     \<lparr>lits = [negate (eq (mk_var 4 0)), ule (mk_val 4 2) (mk_val 4 5)],
      focus = None, pinned = [], calls = []\<rparr>"

text \<open>
  A conflict at width 4 for \<^verbatim>\<open>try_ugt_y\<close>, with variables \<open>y = 0\<close> and \<open>x = 1\<close>, both
  assigned 0 and unconstrained (viable maximum 15): the core holds the strict
  \<open>0 < y\<close>, false under the model, and the non-strict \<open>y * x \<le> 2 * x\<close>.
\<close>

definition mixed_le_y :: signed_constraint where
  "mixed_le_y = ult (mk_val 4 0) (mk_var 4 0)"

definition mixed_yx_l_zx :: signed_constraint where
  "mixed_yx_l_zx =
     ule (pdd_mul 4 (mk_var 4 0) (mk_var 4 1)) (pdd_mul 4 (mk_val 4 2) (mk_var 4 1))"

definition mixed_solver :: solver where
  "mixed_solver =
     \<lparr>bit_size = 4, assignment = (\<lambda>v. if v = 0 \<or> v = 1 then Some 0 else None),
      bvalue = (\<lambda>l. l_undef), max_viable = (\<lambda>v. 15), cjust = (\<lambda>v. [])\<rparr>"

definition mixed_core :: conflict_core where
  "mixed_core = \<lparr>lits = [mixed_le_y, mixed_yx_l_zx], focus = None, pinned = [], calls = []\<rparr>"








text \<open>
  A state at width 4 in which the worst case cannot overflow: the variables 0 and 1 have
  the value 1 and the viable maximum 1, justified for each variable \<open>v\<close> by the literal
  \<open>v \<le> 1\<close>.  The core holds \<open>v1 * 5 \<le> v1 * 2\<close>, false under the model.
\<close>

definition reuse_solver :: solver where
  "reuse_solver =
     \<lparr>bit_size = 4, assignment = (\<lambda>v. if v = 0 \<or> v = 1 then Some 1 else None),
      bvalue = (\<lambda>l. l_undef), max_viable = (\<lambda>v. 1),
      cjust = (\<lambda>v. [ule (mk_var 4 v) (mk_val 4 1)])\<rparr>"

definition reuse_lit :: signed_constraint where
  "reuse_lit =
     ule (pdd_mul 4 (mk_var 4 1) (mk_val 4 5)) (pdd_mul 4 (mk_var 4 1) (mk_val 4 2))"

definition reuse_core :: conflict_core where
  "reuse_core = \<lparr>lits = [reuse_lit], focus = None, pinned = [], calls = []\<rparr>"




text \<open>
  A state at width 4 for the bisection: variable 0 has the value 3, which is also its
  viable maximum, and variable 1 has the value 5 and the viable maximum 15.  The values
  do not overflow (\<open>3 * 5 < 16\<close>), the maxima do (\<open>3 * 15 \<ge> 16\<close>).
\<close>

definition tight_solver :: solver where
  "tight_solver =
     \<lparr>bit_size = 4, assignment = (\<lambda>v. if v = 0 then Some 3 else if v = 1 then Some 5 else None),
      bvalue = (\<lambda>l. l_undef), max_viable = (\<lambda>v. if v = 0 then 3 else 15),
      cjust = (\<lambda>v. [])\<rparr>"

text \<open>
  Conflicts at width 4 for \<^verbatim>\<open>try_ugt_z\<close> and \<^verbatim>\<open>try_y_l_ax_and_x_l_z\<close>: variable 0 has
  the value 3, variable 1 the value 0, every viable maximum is 12.  Both cores hold the
  strict \<open>v0 < 2\<close>, false under the model; the first also holds the non-strict
  \<open>3 * v1 \<le> v0 * v1\<close>, the second the non-strict \<open>0 \<le> v1 * v0\<close>.
\<close>

definition mixed_z_solver :: solver where
  "mixed_z_solver =
     \<lparr>bit_size = 4, assignment = (\<lambda>v. if v = 0 then Some 3 else if v = 1 then Some 0 else None),
      bvalue = (\<lambda>l. l_undef), max_viable = (\<lambda>v. 12), cjust = (\<lambda>v. [])\<rparr>"

definition mixed_z_l_y :: signed_constraint where
  "mixed_z_l_y = ult (mk_var 4 0) (mk_val 4 2)"

definition mixed_z_yx_l_zx :: signed_constraint where
  "mixed_z_yx_l_zx =
     ule (pdd_mul 4 (mk_val 4 3) (mk_var 4 1)) (pdd_mul 4 (mk_var 4 0) (mk_var 4 1))"

definition mixed_y_l_ax :: signed_constraint where
  "mixed_y_l_ax = ule (mk_val 4 0) (pdd_mul 4 (mk_var 4 1) (mk_var 4 0))"

definition mixed_z_core :: conflict_core where
  "mixed_z_core =
     \<lparr>lits = [mixed_z_l_y, mixed_z_yx_l_zx], focus = None, pinned = [], calls = []\<rparr>"

definition mixed_ax_core :: conflict_core where
  "mixed_ax_core =
     \<lparr>lits = [mixed_z_l_y, mixed_y_l_ax], focus = None, pinned = [], calls = []\<rparr>"

text \<open>
  A valuation of the variables of these cores: variable 0 is 1, every other variable is 0.
\<close>

definition mixed_valuation :: "pvar \<Rightarrow> int" where
  "mixed_valuation v = (if v = 0 then 1 else 0)"

section \<open>Properties\<close>

subsection \<open>The core after a call\<close>

lemma calls_foldl_insert:
  "calls (foldl core_insert core ncs) = calls core @ map Insert ncs"
  by (induction ncs arbitrary: core) (simp_all add: core_insert_def)

lemma pinned_foldl_insert: "pinned (foldl core_insert core ncs) = pinned core"
  by (induction ncs arbitrary: core) (simp_all add: core_insert_def)

lemma focus_foldl_insert: "focus (foldl core_insert core ncs) = focus core"
  by (induction ncs arbitrary: core) (simp_all add: core_insert_def)

lemma set_lits_foldl_insert:
  "set (lits (foldl core_insert core ncs)) = set (lits core) \<union> set ncs"
  by (induction ncs arbitrary: core) (auto simp: core_insert_def)

lemma propagate_False: "propagate s core c1 c2 c ncs = (False, core') \<Longrightarrow> core' = core"
  by (simp add: propagate_def Let_def split: if_splits)

lemma propagate_ineq_False:
  "propagate_ineq s core c1 c2 b l r ncs = (False, core') \<Longrightarrow> core' = core"
  by (simp add: propagate_ineq_def propagate_False)

lemma try_ugt_x_False: "try_ugt_x s v core c = Some (False, core') \<Longrightarrow> core' = core"
  by (auto simp: try_ugt_x_def Let_def split: option.splits if_splits dest: propagate_ineq_False)

lemma try_ugt_y_pair_False:
  "try_ugt_y_pair s v core c d x z = Some (False, core') \<Longrightarrow> core' = core"
  by (auto simp: try_ugt_y_pair_def Let_def split: option.splits if_splits dest: propagate_ineq_False)

lemma try_ugt_z_pair_False:
  "try_ugt_z_pair s v core c d x z = Some (False, core') \<Longrightarrow> core' = core"
  by (auto simp: try_ugt_z_pair_def Let_def split: option.splits if_splits dest: propagate_ineq_False)

lemma try_y_l_ax_and_x_l_z_pair_False:
  "try_y_l_ax_and_x_l_z_pair s v core c d x z = Some (False, core') \<Longrightarrow> core' = core"
  by (auto simp: try_y_l_ax_and_x_l_z_pair_def Let_def split: option.splits if_splits dest: propagate_ineq_False)

lemma framedI: "(\<And>core'. r = Some (False, core') \<Longrightarrow> core' = core) \<Longrightarrow> framed core r"
  by (auto simp: framed_def split: option.splits)

lemma framedD: "framed core r \<Longrightarrow> r = Some (False, core') \<Longrightarrow> core' = core"
  by (auto simp: framed_def)

lemma or_try_framed: "framed core r \<Longrightarrow> or_try r k = or_try r (\<lambda>c. k core)"
  by (auto simp: framed_def or_try_def split: option.splits)

lemma framed_or_try: "framed core r \<Longrightarrow> framed core (k core) \<Longrightarrow> framed core (or_try r k)"
  by (auto simp: framed_def or_try_def split: option.splits)

lemma framed_False [simp]: "framed core (Some (False, core))"
  by (simp add: framed_def)

lemma framed_try_ugt_x: "framed core (try_ugt_x s v core c)"
  by (rule framedI) (rule try_ugt_x_False)

lemma framed_try_ugt_y_pair: "framed core (try_ugt_y_pair s v core c d x z)"
  by (rule framedI) (rule try_ugt_y_pair_False)

lemma framed_try_ugt_z_pair: "framed core (try_ugt_z_pair s v core c d x z)"
  by (rule framedI) (rule try_ugt_z_pair_False)

lemma framed_try_y_l_ax_and_x_l_z_pair: "framed core (try_y_l_ax_and_x_l_z_pair s v core c d x z)"
  by (rule framedI) (rule try_y_l_ax_and_x_l_z_pair_False)

lemma framed_try_ugt_y_loop: "framed core (try_ugt_y_loop s v c ds core)"
proof (induction ds)
  case Nil
  show ?case by simp
next
  case (Cons dd ds)
  show ?case
    by (auto split: option.splits intro!: framed_or_try framed_try_ugt_y_pair Cons)
qed

lemma framed_try_ugt_z_loop: "framed core (try_ugt_z_loop s v c ds core)"
proof (induction ds)
  case Nil
  show ?case by simp
next
  case (Cons dd ds)
  show ?case
    by (auto split: option.splits intro!: framed_or_try framed_try_ugt_z_pair Cons)
qed

lemma framed_try_y_l_ax_and_x_l_z_loop: "framed core (try_y_l_ax_and_x_l_z_loop s v c ds core)"
proof (induction ds)
  case Nil
  show ?case by simp
next
  case (Cons dd ds)
  show ?case
    by (auto split: option.splits intro!: framed_or_try framed_try_y_l_ax_and_x_l_z_pair Cons)
qed

lemma framed_try_ugt_y: "framed core (try_ugt_y s v core c)"
  by (simp add: try_ugt_y_def framed_try_ugt_y_loop)

lemma framed_try_ugt_z: "framed core (try_ugt_z s v core c)"
  by (simp add: try_ugt_z_def framed_try_ugt_z_loop)

lemma framed_try_y_l_ax_and_x_l_z: "framed core (try_y_l_ax_and_x_l_z s v core c)"
  by (simp add: try_y_l_ax_and_x_l_z_def framed_try_y_l_ax_and_x_l_z_loop)

lemma first_fire_Cons: "first_fire core (r # rs) = or_try r (\<lambda>c. first_fire core rs)"
  by (simp add: or_try_def split: option.splits)

lemma perform_loop_step:
  "is_ule c1 \<Longrightarrow>
   perform_loop s v (c1 # cs) core =
     or_try (try_ugt_x s v core (as_inequality c1)) (\<lambda>c.
     or_try (try_ugt_y s v core (as_inequality c1)) (\<lambda>c.
     or_try (try_ugt_z s v core (as_inequality c1)) (\<lambda>c.
     or_try (try_y_l_ax_and_x_l_z s v core (as_inequality c1)) (\<lambda>c.
     perform_loop s v cs core))))"
proof -
  assume u: "is_ule c1"
  let ?c = "as_inequality c1"
  have 4: "or_try (try_y_l_ax_and_x_l_z s v core ?c) (\<lambda>c4. perform_loop s v cs c4) =
           or_try (try_y_l_ax_and_x_l_z s v core ?c) (\<lambda>c4. perform_loop s v cs core)"
    by (rule or_try_framed [OF framed_try_y_l_ax_and_x_l_z])
  have 3: "or_try (try_ugt_z s v core ?c) (\<lambda>c3.
             or_try (try_y_l_ax_and_x_l_z s v c3 ?c) (\<lambda>c4. perform_loop s v cs c4)) =
           or_try (try_ugt_z s v core ?c) (\<lambda>c3.
             or_try (try_y_l_ax_and_x_l_z s v core ?c) (\<lambda>c4. perform_loop s v cs core))"
    by (subst or_try_framed [OF framed_try_ugt_z]) (simp only: 4)
  have 2: "or_try (try_ugt_y s v core ?c) (\<lambda>c2.
             or_try (try_ugt_z s v c2 ?c) (\<lambda>c3.
             or_try (try_y_l_ax_and_x_l_z s v c3 ?c) (\<lambda>c4. perform_loop s v cs c4))) =
           or_try (try_ugt_y s v core ?c) (\<lambda>c2.
             or_try (try_ugt_z s v core ?c) (\<lambda>c3.
             or_try (try_y_l_ax_and_x_l_z s v core ?c) (\<lambda>c4. perform_loop s v cs core)))"
    by (subst or_try_framed [OF framed_try_ugt_y]) (simp only: 3)
  have 1: "or_try (try_ugt_x s v core ?c) (\<lambda>c1.
             or_try (try_ugt_y s v c1 ?c) (\<lambda>c2.
             or_try (try_ugt_z s v c2 ?c) (\<lambda>c3.
             or_try (try_y_l_ax_and_x_l_z s v c3 ?c) (\<lambda>c4. perform_loop s v cs c4)))) =
           or_try (try_ugt_x s v core ?c) (\<lambda>c1.
             or_try (try_ugt_y s v core ?c) (\<lambda>c2.
             or_try (try_ugt_z s v core ?c) (\<lambda>c3.
             or_try (try_y_l_ax_and_x_l_z s v core ?c) (\<lambda>c4. perform_loop s v cs core))))"
    by (subst or_try_framed [OF framed_try_ugt_x]) (simp only: 2)
  from u 1 show ?thesis by simp
qed

lemma perform_loop_first_fire:
  "perform_loop s v cs core =
     first_fire core
       (concat (map (\<lambda>c1. map (\<lambda>rule. rule s v core (as_inequality c1)) rule_order)
                    (filter is_ule cs)))"
proof (induction cs)
  case Nil
  then show ?case by simp
next
  case (Cons c1 cs)
  show ?case
  proof (cases "is_ule c1")
    case False
    with Cons show ?thesis by simp
  next
    case True
    show ?thesis
      unfolding perform_loop_step [OF True]
      by (simp add: True rule_order_def first_fire_Cons Cons del: first_fire.simps perform_loop.simps)
  qed
qed

lemma framed_perform_loop: "framed core (perform_loop s v cs core)"
proof (induction cs)
  case Nil
  show ?case by simp
next
  case (Cons c1 cs)
  show ?case
  proof (cases "is_ule c1")
    case False
    with Cons show ?thesis by simp
  next
    case True
    show ?thesis
      unfolding perform_loop_step [OF True]
      by (intro framed_or_try framed_try_ugt_x framed_try_ugt_y framed_try_ugt_z
          framed_try_y_l_ax_and_x_l_z Cons)
  qed
qed

lemma first_fire_False:
  "list_all (framed core) rs \<Longrightarrow> first_fire core rs = Some (False, core') \<Longrightarrow>
   core' = core \<and> list_all (\<lambda>a. a = Some (False, core)) rs"
proof (induction rs)
  case Nil
  then show ?case by simp
next
  case (Cons r rs)
  from Cons.prems(2) obtain b c where r: "r = Some (b, c)"
    by (cases r) auto
  with Cons.prems(2) have b: "\<not> b" and rest: "first_fire core rs = Some (False, core')"
    by (auto split: if_splits)
  from Cons.prems(1) r b have "c = core" by (auto simp: framed_def)
  with Cons.IH rest Cons.prems(1) r b show ?case by simp
qed

lemma framed_attempts: "list_all (framed core) (attempts s v core)"
  by (auto simp: attempts_def rule_order_def list_all_iff framed_try_ugt_x framed_try_ugt_y
      framed_try_ugt_z framed_try_y_l_ax_and_x_l_z)

lemma try_ugt_x_no_match:
  "\<not> ugt_x_applies s v c \<Longrightarrow> try_ugt_x s v core c = Some (False, core)"
  by (auto simp: ugt_x_applies_def try_ugt_x_def Let_def split: option.splits)

lemma try_ugt_y_loop_no_match:
  "\<not> list_ex (\<lambda>dd. is_ule dd \<and>
                 (case is_Xy_l_XZ s v (as_inequality dd) of
                    None \<Rightarrow> False
                  | Some (x, z) \<Rightarrow> is_non_overflow s x (var s v))) ds \<Longrightarrow>
   try_ugt_y_loop s v c ds core = Some (False, core)"
  by (induction ds) (auto simp: try_ugt_y_pair_def or_try_def Let_def split: option.splits)

lemma try_ugt_z_loop_no_match:
  "\<not> list_ex (\<lambda>dd. is_ule dd \<and>
                 (case is_YX_l_zX s z (as_inequality dd) of
                    None \<Rightarrow> False
                  | Some (x, y) \<Rightarrow> is_non_overflow s x (rhs c))) ds \<Longrightarrow>
   try_ugt_z_loop s z c ds core = Some (False, core)"
  by (induction ds) (auto simp: try_ugt_z_pair_def or_try_def Let_def split: option.splits)

lemma try_y_l_ax_and_x_l_z_loop_no_match:
  "\<not> list_ex (\<lambda>dd. is_ule dd \<and>
                 (case is_Y_l_Ax s x (as_inequality dd) of
                    None \<Rightarrow> False
                  | Some (a, y) \<Rightarrow> is_non_overflow s a (rhs c))) ds \<Longrightarrow>
   try_y_l_ax_and_x_l_z_loop s x c ds core = Some (False, core)"
  by (induction ds)
     (auto simp: try_y_l_ax_and_x_l_z_pair_def or_try_def Let_def split: option.splits)

lemma try_ugt_y_no_match:
  "\<not> ugt_y_applies s v core c \<Longrightarrow> try_ugt_y s v core c = Some (False, core)"
  by (auto simp: ugt_y_applies_def try_ugt_y_def try_ugt_y_loop_no_match)

lemma try_ugt_z_no_match:
  "\<not> ugt_z_applies s v core c \<Longrightarrow> try_ugt_z s v core c = Some (False, core)"
  by (auto simp: ugt_z_applies_def try_ugt_z_def try_ugt_z_loop_no_match)

lemma try_y_l_ax_and_x_l_z_no_match:
  "\<not> y_l_ax_and_x_l_z_applies s v core c \<Longrightarrow>
   try_y_l_ax_and_x_l_z s v core c = Some (False, core)"
  by (auto simp: y_l_ax_and_x_l_z_applies_def try_y_l_ax_and_x_l_z_def
      try_y_l_ax_and_x_l_z_loop_no_match)

lemma perform_loop_no_match:
  "\<forall>c1\<in>set cs. is_ule c1 \<longrightarrow> \<not> rule_applies s v core (as_inequality c1) \<Longrightarrow>
   perform_loop s v cs core = Some (False, core)"
proof (induction cs)
  case Nil
  show ?case by simp
next
  case (Cons c1 cs)
  show ?case
  proof (cases "is_ule c1")
    case False
    with Cons show ?thesis by simp
  next
    case True
    with Cons.prems have n: "\<not> rule_applies s v core (as_inequality c1)" by simp
    from Cons have rest: "perform_loop s v cs core = Some (False, core)" by simp
    from n show ?thesis
      unfolding perform_loop_step [OF True]
      by (simp add: rule_applies_def try_ugt_x_no_match try_ugt_y_no_match try_ugt_z_no_match
          try_y_l_ax_and_x_l_z_no_match or_try_def rest)
  qed
qed

















lemma push_omega_branches:
  "(2 ^ bit_size s \<le> omega_max s x * omega_max s y \<longrightarrow>
      push_omega s new_constraints x y =
      push_omega_bisect s new_constraints x (omega_max s x) y (omega_max s y)) \<and>
   (omega_max s x * omega_max s y < 2 ^ bit_size s \<longrightarrow>
      push_omega s new_constraints x y =
      Some (new_constraints @ cjust s (pdd_var y) @ cjust s (pdd_var x)))"
  by (simp add: push_omega_def omega_max_def Let_def)

lemma is_var_pdd_var: "is_var x \<Longrightarrow> x = [([pdd_var x], 1)]"
  by (cases x rule: is_var.cases) (simp_all add: pdd_var_def)


subsection \<open>Brackets on which the bisection loops make no progress\<close>

lemma bisect_joint_stuck_aux:
  assumes "bisect_joint bound x_lo x_hi y_lo y_hi = Some r"
  shows "\<not> (x_lo \<le> x_hi \<and> x_hi \<le> x_lo + 1 \<and> y_lo \<le> y_hi \<and> y_hi \<le> y_lo + 1 \<and>
            (x_lo < x_hi \<or> y_lo < y_hi) \<and> x_lo * y_lo < bound)"
proof (rule bisect_joint.raw_induct [where P = "\<lambda>bound x_lo x_hi y_lo y_hi r.
    \<not> (x_lo \<le> x_hi \<and> x_hi \<le> x_lo + 1 \<and> y_lo \<le> y_hi \<and> y_hi \<le> y_lo + 1 \<and>
            (x_lo < x_hi \<or> y_lo < y_hi) \<and> x_lo * y_lo < bound)", OF _ assms])
  fix f :: "int \<Rightarrow> int \<Rightarrow> int \<Rightarrow> int \<Rightarrow> int \<Rightarrow> (int \<times> int \<times> int \<times> int) option"
    and bound x_lo x_hi y_lo y_hi :: int and r
  assume IH: "\<And>bound x_lo x_hi y_lo y_hi r. f bound x_lo x_hi y_lo y_hi = Some r \<Longrightarrow>
      \<not> (x_lo \<le> x_hi \<and> x_hi \<le> x_lo + 1 \<and> y_lo \<le> y_hi \<and> y_hi \<le> y_lo + 1 \<and>
            (x_lo < x_hi \<or> y_lo < y_hi) \<and> x_lo * y_lo < bound)"
    and step: "(if x_lo < x_hi \<or> y_lo < y_hi then
        (if bound \<le> ((x_hi + x_lo) div 2) * ((y_hi + y_lo) div 2)
         then f bound x_lo ((x_hi + x_lo) div 2 - 1) y_lo ((y_hi + y_lo) div 2 - 1)
         else f bound ((x_hi + x_lo) div 2) x_hi ((y_hi + y_lo) div 2) y_hi)
      else Some (x_lo, x_hi, y_lo, y_hi)) = Some r"
  show "\<not> (x_lo \<le> x_hi \<and> x_hi \<le> x_lo + 1 \<and> y_lo \<le> y_hi \<and> y_hi \<le> y_lo + 1 \<and>
            (x_lo < x_hi \<or> y_lo < y_hi) \<and> x_lo * y_lo < bound)"
  proof
    assume a: "x_lo \<le> x_hi \<and> x_hi \<le> x_lo + 1 \<and> y_lo \<le> y_hi \<and> y_hi \<le> y_lo + 1 \<and>
            (x_lo < x_hi \<or> y_lo < y_hi) \<and> x_lo * y_lo < bound"
    then have mx: "(x_hi + x_lo) div 2 = x_lo" and my: "(y_hi + y_lo) div 2 = y_lo"
      by auto
    from a step have "f bound x_lo x_hi y_lo y_hi = Some r"
      by (simp add: mx my)
    from IH [OF this] a show False by simp
  qed
qed

lemma bisect_joint_stuck:
  "x_lo \<le> x_hi \<Longrightarrow> x_hi \<le> x_lo + 1 \<Longrightarrow> y_lo \<le> y_hi \<Longrightarrow> y_hi \<le> y_lo + 1 \<Longrightarrow>
   x_lo < x_hi \<or> y_lo < y_hi \<Longrightarrow> x_lo * y_lo < bound \<Longrightarrow>
   bisect_joint bound x_lo x_hi y_lo y_hi = None"
  using bisect_joint_stuck_aux [of bound x_lo x_hi y_lo y_hi]
  by (cases "bisect_joint bound x_lo x_hi y_lo y_hi") auto

lemma bisect_x_stuck_aux:
  assumes "bisect_x bound y_lo x_lo x_hi = Some r"
  shows "\<not> (x_hi = x_lo + 1 \<and> x_lo * y_lo < bound)"
proof (rule bisect_x.raw_induct [where P = "\<lambda>bound y_lo x_lo x_hi r.
    \<not> (x_hi = x_lo + 1 \<and> x_lo * y_lo < bound)", OF _ assms])
  fix f :: "int \<Rightarrow> int \<Rightarrow> int \<Rightarrow> int \<Rightarrow> (int \<times> int) option"
    and bound y_lo x_lo x_hi :: int and r
  assume IH: "\<And>bound y_lo x_lo x_hi r. f bound y_lo x_lo x_hi = Some r \<Longrightarrow>
      \<not> (x_hi = x_lo + 1 \<and> x_lo * y_lo < bound)"
    and step: "(if x_lo < x_hi then
        (if bound \<le> ((x_hi + x_lo) div 2) * y_lo
         then f bound y_lo x_lo ((x_hi + x_lo) div 2 - 1)
         else f bound y_lo ((x_hi + x_lo) div 2) x_hi)
      else Some (x_lo, x_hi)) = Some r"
  show "\<not> (x_hi = x_lo + 1 \<and> x_lo * y_lo < bound)"
  proof
    assume a: "x_hi = x_lo + 1 \<and> x_lo * y_lo < bound"
    then have mx: "(x_hi + x_lo) div 2 = x_lo" by auto
    from a step have "f bound y_lo x_lo x_hi = Some r"
      by (simp add: mx)
    from IH [OF this] a show False by simp
  qed
qed

lemma bisect_x_stuck:
  "x_hi = x_lo + 1 \<Longrightarrow> x_lo * y_lo < bound \<Longrightarrow> bisect_x bound y_lo x_lo x_hi = None"
  using bisect_x_stuck_aux [of bound y_lo x_lo x_hi]
  by (cases "bisect_x bound y_lo x_lo x_hi") auto

lemma scenario_lit_eq: "scenario_lit = (True, Ule [([0], 2)] [([0], 5)])"
  by code_simp

lemma mk_val_4_2: "mk_val 4 2 = [([], 2)]" by code_simp
lemma mk_val_4_5: "mk_val 4 5 = [([], 5)]" by code_simp

subsection \<open>The propagation gate\<close>

text \<open>
  C4.  \<^verbatim>\<open>propagate\<close> returns false and leaves the conflict core as it was (no
  \<^verbatim>\<open>keep\<close>, \<^verbatim>\<open>insert\<close> or \<^verbatim>\<open>set\<close>) whenever a gate fails: neither critical premise is
  currently false under the model, or the candidate literal is neither false on the
  trail nor currently false under the model.
\<close>

theorem propagate_gate_atomic:
  "(\<not> is_currently_false s (as_signed_constraint crit1) \<and>
    \<not> is_currently_false s (as_signed_constraint crit2)) \<or>
   (bvalue s c \<noteq> l_false \<and> \<not> is_currently_false s c) \<Longrightarrow>
   propagate s core crit1 crit2 c new_constraints = (False, core)"
  by (auto simp: propagate_def Let_def)

theorem propagate_gate_atomic_witness:
  "\<not> is_currently_false scenario_solver (as_signed_constraint (as_inequality scenario_lit)) \<and>
   bvalue scenario_solver (ule (mk_val 4 2) (mk_val 4 5)) \<noteq> l_false \<and>
   \<not> is_currently_false scenario_solver (ule (mk_val 4 2) (mk_val 4 5)) \<and>
   propagate scenario_solver scenario_core (as_inequality scenario_lit)
     (as_inequality scenario_lit) (ule (mk_val 4 2) (mk_val 4 5))
     [negate (eq (mk_var 4 0))] = (False, scenario_core)"
proof -
  have 1: "\<not> is_currently_false scenario_solver
               (as_signed_constraint (as_inequality scenario_lit))"
    by code_simp
  have 2: "bvalue scenario_solver (ule (mk_val 4 2) (mk_val 4 5)) \<noteq> l_false"
    by code_simp
  have 3: "\<not> is_currently_false scenario_solver (ule (mk_val 4 2) (mk_val 4 5))"
    by code_simp
  from 1 2 3 propagate_gate_atomic [of scenario_solver "as_inequality scenario_lit"
      "as_inequality scenario_lit" "ule (mk_val 4 2) (mk_val 4 5)" scenario_core
      "[negate (eq (mk_var 4 0))]"]
  show ?thesis by blast
qed

text \<open>
  C6.  Whenever \<^verbatim>\<open>propagate\<close> returns true, the calls it has made on the core are, in
  this order: \<^verbatim>\<open>keep\<close> of the first and of the second critical premise, then
  \<^verbatim>\<open>insert\<close> of the negated candidate if the candidate is false on the trail and
  \<^verbatim>\<open>set\<close> of the candidate otherwise (it is then currently false under the model), then
  \<^verbatim>\<open>insert\<close> of every side-condition literal.  Both gates held, and the core's pinned
  literals, working literal and literals have changed accordingly.
\<close>

theorem propagate_success_effects:
  assumes "propagate s core crit1 crit2 c new_constraints = (True, core')"
  shows "calls core' =
           calls core @
           [Keep (as_signed_constraint crit1), Keep (as_signed_constraint crit2),
            (if bvalue s c = l_false then Insert (negate c) else Set c)] @
           map Insert new_constraints
         \<and> (is_currently_false s (as_signed_constraint crit1) \<or>
            is_currently_false s (as_signed_constraint crit2))
         \<and> (bvalue s c = l_false \<or> is_currently_false s c)
         \<and> pinned core' = pinned core @ [as_signed_constraint crit1, as_signed_constraint crit2]
         \<and> focus core' = (if bvalue s c = l_false then focus core else Some c)
         \<and> set (lits core') =
             set (lits core) \<union> (if bvalue s c = l_false then {negate c} else {}) \<union>
             set new_constraints"
  using assms
  by (auto simp: propagate_def Let_def calls_foldl_insert pinned_foldl_insert
      focus_foldl_insert set_lits_foldl_insert core_keep_def core_insert_def core_set_def
      split: if_splits)

theorem propagate_success_effects_witness:
  "fst (propagate mixed_solver mixed_core (as_inequality mixed_le_y)
          (as_inequality mixed_yx_l_zx) (ult (mk_val 4 0) (pdd_mul 4 (mk_val 4 2) (mk_var 4 1)))
          [mixed_le_y, mixed_yx_l_zx]) \<and>
   calls (snd (propagate mixed_solver mixed_core (as_inequality mixed_le_y)
          (as_inequality mixed_yx_l_zx) (ult (mk_val 4 0) (pdd_mul 4 (mk_val 4 2) (mk_var 4 1)))
          [mixed_le_y, mixed_yx_l_zx])) =
     [Keep mixed_le_y, Keep mixed_yx_l_zx,
      Set (ult (mk_val 4 0) (pdd_mul 4 (mk_val 4 2) (mk_var 4 1))),
      Insert mixed_le_y, Insert mixed_yx_l_zx]"
proof -
  let ?c = "ult (mk_val 4 0) (pdd_mul 4 (mk_val 4 2) (mk_var 4 1))"
  let ?r = "propagate mixed_solver mixed_core (as_inequality mixed_le_y)
          (as_inequality mixed_yx_l_zx) ?c [mixed_le_y, mixed_yx_l_zx]"
  have f: "fst ?r" by code_simp
  then have 1: "?r = (True, snd ?r)" by (cases ?r) simp
  have 2: "as_signed_constraint (as_inequality mixed_le_y) = mixed_le_y" by code_simp
  have 3: "as_signed_constraint (as_inequality mixed_yx_l_zx) = mixed_yx_l_zx" by code_simp
  have 4: "bvalue mixed_solver ?c \<noteq> l_false" by code_simp
  have 5: "calls mixed_core = []" by code_simp
  from propagate_success_effects [OF 1] f 2 3 4 5 show ?thesis by simp
qed

subsection \<open>The entry point\<close>

text \<open>
  C7.  \<^verbatim>\<open>perform\<close> examines exactly the literals of the core that are inequalities, in
  iteration order, and for each of them tries \<^verbatim>\<open>try_ugt_x\<close>, \<^verbatim>\<open>try_ugt_y\<close>,
  \<^verbatim>\<open>try_ugt_z\<close>, \<^verbatim>\<open>try_y_l_ax_and_x_l_z\<close> in this order: it returns what the first
  attempt that succeeds returns, and it returns false only when every rule has returned
  false on every inequality literal, with the core as it was.
\<close>

theorem perform_order:
  "perform s v core = perform_spec s v core \<and>
   (\<forall>core'. perform s v core = Some (False, core') \<longrightarrow>
      core' = core \<and> list_all (\<lambda>a. a = Some (False, core)) (attempts s v core))"
proof -
  have eq: "perform s v core = first_fire core (attempts s v core)"
    by (simp add: perform_def attempts_def perform_loop_first_fire)
  then have "perform s v core = perform_spec s v core"
    by (simp add: perform_spec_def attempts_def)
  moreover have "core' = core \<and> list_all (\<lambda>a. a = Some (False, core)) (attempts s v core)"
    if "perform s v core = Some (False, core')" for core'
    using first_fire_False [OF framed_attempts, of core s v core'] that eq by simp
  ultimately show ?thesis by blast
qed

theorem perform_order_witness:
  "perform scenario_solver 0 scenario_core = Some (False, scenario_core) \<and>
   perform_spec scenario_solver 0 scenario_core = Some (False, scenario_core) \<and>
   attempts scenario_solver 0 scenario_core =
     [Some (False, scenario_core), Some (False, scenario_core),
      Some (False, scenario_core), Some (False, scenario_core)]"
proof -
  have p: "perform scenario_solver 0 scenario_core = Some (False, scenario_core)"
    by code_simp
  have l: "length (attempts scenario_solver 0 scenario_core) = 4"
    by code_simp
  note po = perform_order [of scenario_solver 0 scenario_core]
  from po have eq: "perform scenario_solver 0 scenario_core =
                    perform_spec scenario_solver 0 scenario_core"
    by (rule conjunct1)
  from eq p have s: "perform_spec scenario_solver 0 scenario_core = Some (False, scenario_core)"
    by simp
  from po p have a: "list_all (\<lambda>a. a = Some (False, scenario_core))
                       (attempts scenario_solver 0 scenario_core)"
    by blast
  from l obtain a1 a2 a3 a4 where
    as: "attempts scenario_solver 0 scenario_core = [a1, a2, a3, a4]"
    by (auto simp: length_Suc_conv numeral_eq_Suc)
  with a p s show ?thesis by simp
qed

text \<open>
  C9.  If no literal of the core is an inequality, or if for no inequality literal of
  the core a rule's match and guards succeed, \<^verbatim>\<open>perform\<close> returns false and the core is
  unchanged.
\<close>

theorem perform_noop:
  "(\<forall>c1\<in>set (lits core). \<not> is_ule c1) \<or>
   (\<forall>c1\<in>set (lits core). is_ule c1 \<longrightarrow> \<not> rule_applies s v core (as_inequality c1)) \<Longrightarrow>
   perform s v core = Some (False, core)"
  unfolding perform_def by (rule perform_loop_no_match) blast

theorem perform_noop_witness:
  "\<not> is_ule (negate (eq (mk_var 4 0))) \<and>
   is_ule (ule (mk_val 4 2) (mk_val 4 5)) \<and>
   \<not> rule_applies scenario_solver 0 idle_core (as_inequality (ule (mk_val 4 2) (mk_val 4 5))) \<and>
   perform scenario_solver 0 idle_core = Some (False, idle_core)"
proof -
  have 1: "\<not> is_ule (negate (eq (mk_var 4 0)))" by code_simp
  have 2: "is_ule (ule (mk_val 4 2) (mk_val 4 5))" by code_simp
  have 3: "\<not> rule_applies scenario_solver 0 idle_core
               (as_inequality (ule (mk_val 4 2) (mk_val 4 5)))"
    by code_simp
  have l: "lits idle_core = [negate (eq (mk_var 4 0)), ule (mk_val 4 2) (mk_val 4 5)]"
    by (simp add: idle_core_def)
  have h: "(\<forall>c1\<in>set (lits idle_core). \<not> is_ule c1) \<or>
           (\<forall>c1\<in>set (lits idle_core). is_ule c1 \<longrightarrow>
              \<not> rule_applies scenario_solver 0 idle_core (as_inequality c1))"
    using 1 3 by (simp add: l)
  from perform_noop [OF h] 1 2 3 show ?thesis by simp
qed

subsection \<open>The non-overflow justification and the rules' side conditions\<close>

text \<open>
  C8.  The claim: with \<open>x_max\<close> (and \<open>y_max\<close>) the viable-range tracker's maximum of
  \<open>x\<close> (of \<open>y\<close>) when it is a bare variable and \<open>bound - 1\<close> otherwise, \<^verbatim>\<open>push_omega\<close>
  runs the bisection if and only if \<open>x_max * y_max \<ge> bound\<close>, and otherwise inserts
  exactly the bound-justification literals of \<open>x\<close> and \<open>y\<close>.  The dispatch is as claimed
  (\<open>push_omega_branches\<close>).  The premises are not: the maxima are read under the guard
  \<^verbatim>\<open>is_var\<close>, the justification sets are read from \<^verbatim>\<open>y.var()\<close> and \<^verbatim>\<open>x.var()\<close> with no
  guard.  In \<open>reuse_solver\<close>, for the variable \<open>x = v1\<close> and the constant \<open>y = 5\<close> the
  product of the maxima is \<open>1 * 15 < 16\<close>, and the literals inserted for \<open>y\<close> are those
  stored for \<open>v0\<close>, a variable that occurs neither in \<open>x\<close> nor in \<open>y\<close>; \<^verbatim>\<open>perform\<close>
  reaches this through \<^verbatim>\<open>try_ugt_x\<close> and inserts \<open>v0 \<le> 1\<close> into the core.  For the
  unary term \<open>y = 2 * v0\<close>, whose maximum is taken as \<open>bound - 1\<close>, the literals inserted
  are again those stored for \<open>v0\<close>.
\<close>

theorem reuse_reads_unguarded_var:
  "is_var (mk_var 4 1) \<and> \<not> is_var (mk_val 4 5) \<and>
   omega_max reuse_solver (mk_var 4 1) = 1 \<and>
   omega_max reuse_solver (mk_val 4 5) = 15 \<and>
   cjust reuse_solver 0 = [ule (mk_var 4 0) (mk_val 4 1)] \<and>
   cjust reuse_solver 1 = [ule (mk_var 4 1) (mk_val 4 1)] \<and>
   push_omega reuse_solver [] (mk_var 4 1) (mk_val 4 5) =
     Some [ule (mk_var 4 0) (mk_val 4 1), ule (mk_var 4 1) (mk_val 4 1)] \<and>
   (case perform reuse_solver 1 reuse_core of
      None \<Rightarrow> False
    | Some (b, core') \<Rightarrow>
        b \<and> calls core' =
          [Keep reuse_lit, Keep reuse_lit, Set (ule (mk_val 4 5) (mk_val 4 2)),
           Insert (negate (eq (mk_var 4 1))),
           Insert (ule (mk_var 4 0) (mk_val 4 1)), Insert (ule (mk_var 4 1) (mk_val 4 1))]) \<and>
   \<not> is_var (pdd_mul 4 (mk_val 4 2) (mk_var 4 0)) \<and>
   is_unary (pdd_mul 4 (mk_val 4 2) (mk_var 4 0)) \<and>
   omega_max reuse_solver (pdd_mul 4 (mk_val 4 2) (mk_var 4 0)) = 15 \<and>
   push_omega reuse_solver [] (mk_var 4 1) (pdd_mul 4 (mk_val 4 2) (mk_var 4 0)) =
     Some [ule (mk_var 4 0) (mk_val 4 1), ule (mk_var 4 1) (mk_val 4 1)]"
  by code_simp




subsection \<open>The bisection\<close>

text \<open>
  C2.  The claim: for \<open>x_val * y_val < bound \<le> x_max * y_max\<close>, \<open>x_val \<le> x_max\<close>,
  \<open>y_val \<le> y_max\<close>, \<^verbatim>\<open>push_omega_bisect\<close> produces \<open>(x_lo, y_lo)\<close> with
  \<open>x_val \<le> x_lo \<le> x_max\<close>, \<open>y_val \<le> y_lo \<le> y_max\<close>, \<open>x_lo * y_lo < bound\<close>,
  \<open>(x_lo + 1) * y_lo \<ge> bound\<close>, \<open>x_lo * (y_lo + 1) \<ge> bound\<close>, and emits \<open>x \<le> x_lo\<close> and
  \<open>y \<le> y_lo\<close>.  The code does not: at \<open>bound = 16\<close>, \<open>x_val = x_max = 3\<close>, \<open>y_val = 5\<close>,
  \<open>y_max = 15\<close> the joint loop ends with \<open>x_lo = 2\<close> above \<open>x_hi = 1\<close>, the result is
  \<open>(2, 7)\<close> with \<open>x_lo\<close> below the value of \<open>x\<close>, and the literal \<open>x \<le> 2\<close> it emits is
  false under the current model.  At \<open>x_val = x_max = 4\<close>, \<open>y_val = 3\<close>, \<open>y_max = 5\<close> the
  result is \<open>(4, 3)\<close>, with \<open>(x_lo + 1) * y_lo = 15\<close> below the bound.
\<close>

theorem bisection_below_value:
  "try_eval tight_solver (mk_var 4 0) = Some 3 \<and>
   try_eval tight_solver (mk_var 4 1) = Some 5 \<and>
   bisect_joint 16 3 3 5 15 = Some (2, 1, 7, 7) \<and>
   bisect_bounds 16 3 3 5 15 = Some (2, 7) \<and>
   push_omega tight_solver [] (mk_var 4 0) (mk_var 4 1) =
     Some [ule (mk_var 4 0) (mk_val 4 2), ule (mk_var 4 1) (mk_val 4 7)] \<and>
   is_currently_false tight_solver (ule (mk_var 4 0) (mk_val 4 2)) \<and>
   bisect_joint 16 4 4 3 5 = Some (4, 3, 3, 3) \<and>
   bisect_bounds 16 4 4 3 5 = Some (4, 3)"
  by code_simp

text \<open>
  C3.  The claim: for every input with \<open>x_val * y_val < bound \<le> x_max * y_max\<close>,
  \<open>x_val \<le> x_max\<close>, \<open>y_val \<le> y_max\<close>, the joint loop terminates with both brackets
  collapsed and the extension loop terminates too.  The code does not: at \<open>bound = 16\<close>
  with both brackets \<open>[3, 4]\<close> the joint loop never returns, and for the brackets
  \<open>[3, 5]\<close> of the specification's own scenario the joint loop returns \<open>(3, 3)\<close> and the
  extension of \<open>x_lo\<close> never returns.
\<close>

theorem bisection_diverges:
  "bisect_joint 16 3 4 3 4 = None \<and>
   bisect_bounds 16 3 4 3 4 = None \<and>
   bisect_joint 16 3 5 3 5 = Some (3, 3, 3, 3) \<and>
   bisect_x 16 3 3 5 = None \<and>
   bisect_bounds 16 3 5 3 5 = None"
proof -
  have 1: "bisect_joint 16 3 4 3 4 = None"
    by (rule bisect_joint_stuck) simp_all
  have 2: "bisect_joint 16 3 5 3 5 = Some (3, 3, 3, 3)"
    by (simp add: bisect_joint.simps)
  have "bisect_x 16 3 3 5 = bisect_x 16 3 4 5"
    by (subst bisect_x.simps) simp
  also have "\<dots> = None"
    by (rule bisect_x_stuck) simp_all
  finally have 3: "bisect_x 16 3 3 5 = None" .
  from 1 2 3 show ?thesis by (simp add: bisect_bounds_def)
qed

subsection \<open>The rules\<close>

text \<open>
  C1.  The claim: whenever a rule fires, its premises (the critical literals and the
  side conditions) entail the derived lemma under every valuation.  The code does not
  keep to it: on \<open>mixed_core\<close>, \<^verbatim>\<open>perform\<close> fires \<^verbatim>\<open>try_ugt_y\<close> on the strict \<open>0 < y\<close> and
  the non-strict \<open>y * x \<le> 2 * x\<close>, derives the strict \<open>0 * x < 2 * x\<close> from the premises
  \<open>0 < y\<close>, \<open>y * x \<le> 2 * x\<close>, \<open>x \<le> 5\<close>, \<open>y \<le> 3\<close>, and under the valuation \<open>y = 1\<close>,
  \<open>x = 0\<close> every premise is true and the derived lemma is false.  In the same way
  \<^verbatim>\<open>try_ugt_z\<close> derives \<open>3 * v1 < 2 * v1\<close> from \<open>v0 < 2\<close>, \<open>3 * v1 \<le> v0 * v1\<close>, \<open>v1 \<le> 3\<close>,
  \<open>2 \<le> 5\<close>, and \<^verbatim>\<open>try_y_l_ax_and_x_l_z\<close> derives \<open>0 < v1 * 2\<close> from \<open>v0 < 2\<close>,
  \<open>0 \<le> v1 * v0\<close>, \<open>v1 \<le> 3\<close>, \<open>2 \<le> 5\<close>; under \<open>v0 = 1\<close>, \<open>v1 = 0\<close> the premises are
  true and the lemmas false.
\<close>

theorem mixed_strictness_unsound:
  "(case perform mixed_solver 0 mixed_core of
      None \<Rightarrow> False
    | Some (b, core') \<Rightarrow>
        b \<and> calls core' =
          [Keep mixed_le_y, Keep mixed_yx_l_zx,
           Set (ult (mk_val 4 0) (pdd_mul 4 (mk_val 4 2) (mk_var 4 1))),
           Insert mixed_le_y, Insert mixed_yx_l_zx,
           Insert (ule (mk_var 4 1) (mk_val 4 5)), Insert (ule (mk_var 4 0) (mk_val 4 3))]) \<and>
   holds 4 mixed_valuation mixed_le_y \<and>
   holds 4 mixed_valuation mixed_yx_l_zx \<and>
   holds 4 mixed_valuation (ule (mk_var 4 1) (mk_val 4 5)) \<and>
   holds 4 mixed_valuation (ule (mk_var 4 0) (mk_val 4 3)) \<and>
   \<not> holds 4 mixed_valuation (ult (mk_val 4 0) (pdd_mul 4 (mk_val 4 2) (mk_var 4 1))) \<and>
   (case perform mixed_z_solver 0 mixed_z_core of
      None \<Rightarrow> False
    | Some (b, core') \<Rightarrow>
        b \<and> calls core' =
          [Keep mixed_z_l_y, Keep mixed_z_yx_l_zx,
           Set (ult (pdd_mul 4 (mk_val 4 3) (mk_var 4 1)) (pdd_mul 4 (mk_val 4 2) (mk_var 4 1))),
           Insert mixed_z_l_y, Insert mixed_z_yx_l_zx,
           Insert (ule (mk_var 4 1) (mk_val 4 3)), Insert (ule (mk_val 4 2) (mk_val 4 5))]) \<and>
   holds 4 mixed_valuation mixed_z_l_y \<and>
   holds 4 mixed_valuation mixed_z_yx_l_zx \<and>
   holds 4 mixed_valuation (ule (mk_var 4 1) (mk_val 4 3)) \<and>
   holds 4 mixed_valuation (ule (mk_val 4 2) (mk_val 4 5)) \<and>
   \<not> holds 4 mixed_valuation
       (ult (pdd_mul 4 (mk_val 4 3) (mk_var 4 1)) (pdd_mul 4 (mk_val 4 2) (mk_var 4 1))) \<and>
   (case try_y_l_ax_and_x_l_z mixed_z_solver 0 mixed_ax_core (as_inequality mixed_z_l_y) of
      None \<Rightarrow> False
    | Some (b, core') \<Rightarrow>
        b \<and> calls core' =
          [Keep mixed_z_l_y, Keep mixed_y_l_ax,
           Set (ult (mk_val 4 0) (pdd_mul 4 (mk_var 4 1) (mk_val 4 2))),
           Insert mixed_z_l_y, Insert mixed_y_l_ax,
           Insert (ule (mk_var 4 1) (mk_val 4 3)), Insert (ule (mk_val 4 2) (mk_val 4 5))]) \<and>
   holds 4 mixed_valuation mixed_y_l_ax \<and>
   \<not> holds 4 mixed_valuation (ult (mk_val 4 0) (pdd_mul 4 (mk_var 4 1) (mk_val 4 2)))"
  by code_simp

text \<open>
  C5.  The scenario at width 4 with the core \<open>v * 2 \<le> v * 5\<close> and \<open>v = 3\<close>.  As claimed,
  \<^verbatim>\<open>try_ugt_x\<close> matches with \<open>Y = 2\<close> and \<open>Z = 5\<close>, its guards hold, and it hands the
  candidate \<open>2 \<le> 5\<close> with the side conditions \<open>v \<noteq> 0\<close> and the omega bounds of \<open>(v, 2)\<close>
  to \<^verbatim>\<open>propagate\<close>.  Against the claim, the rule does not fire: the critical literal is
  not false under the model (\<open>6 \<le> 15\<close>) and neither is the candidate, so the gate
  rejects it; no other rule matches, and \<^verbatim>\<open>perform\<close>, whenever it returns, returns
  false with the core unchanged.
\<close>

theorem scenario_rejected:
  assumes w: "bit_size s = 4" and v: "assignment s 0 = Some 3"
    and c: "lits core = [scenario_lit]"
  shows "is_xY_l_xZ s 0 (as_inequality scenario_lit) = Some (mk_val 4 2, mk_val 4 5) \<and>
         is_non_overflow s (var s 0) (mk_val 4 2) \<and>
         get_value s 0 \<noteq> 0 \<and>
         try_ugt_x s 0 core (as_inequality scenario_lit) =
           (case push_omega s [negate (eq (var s 0))] (var s 0) (mk_val 4 2) of
              None \<Rightarrow> None
            | Some new_constraints \<Rightarrow>
                Some (propagate s core (as_inequality scenario_lit) (as_inequality scenario_lit)
                        (ule (mk_val 4 2) (mk_val 4 5)) new_constraints)) \<and>
         \<not> is_currently_false s scenario_lit \<and>
         \<not> is_currently_false s (ule (mk_val 4 2) (mk_val 4 5)) \<and>
         (\<forall>r. perform s 0 core = Some r \<longrightarrow> r = (False, core))"
proof -
  let ?c = "as_inequality scenario_lit"
  have xv: "var s 0 = [([0], 1)]"
    by (simp add: var_def mk_var_def w)
  have m: "is_xY_l_xZ s 0 ?c = Some (mk_val 4 2, mk_val 4 5)"
    by (simp add: scenario_lit_eq mk_val_4_2 mk_val_4_5 is_xY_l_xZ_def is_xY_def
        pdd_degree_def pdd_factor_def w)
  have gv: "get_value s 0 = 3"
    by (simp add: get_value_def v)
  have ex: "try_eval s (var s 0) = Some 3"
    by (simp add: try_eval_def xv v w pdd_eval_def gv)
  have e2: "try_eval s (mk_val 4 2) = Some 2" "try_eval s (mk_val 4 5) = Some 5"
    by (simp_all add: try_eval_def mk_val_4_2 mk_val_4_5 w pdd_eval_def)
  have no: "is_non_overflow s (var s 0) (mk_val 4 2)"
    by (simp add: is_non_overflow_def ex e2 w)
  have el: "try_eval s [([0], 2)] = Some 6" "try_eval s [([0], 5)] = Some 15"
    by (simp_all add: try_eval_def v w pdd_eval_def gv)
  have cf: "\<not> is_currently_false s scenario_lit"
    by (simp add: scenario_lit_eq el)
  have asc: "as_signed_constraint ?c = scenario_lit"
    by (simp add: scenario_lit_eq as_signed_constraint_def)
  have lf: "\<not> is_currently_false s (ule (mk_val 4 2) (mk_val 4 5))"
    by (simp add: ule_def e2)
  have st: "\<not> is_strict ?c"
    by (simp add: scenario_lit_eq)
  have tx: "try_ugt_x s 0 core ?c =
           (case push_omega s [negate (eq (var s 0))] (var s 0) (mk_val 4 2) of
              None \<Rightarrow> None
            | Some new_constraints \<Rightarrow>
                Some (propagate s core ?c ?c (ule (mk_val 4 2) (mk_val 4 5)) new_constraints))"
    by (simp add: try_ugt_x_def m no gv st propagate_ineq_def ineq_def Let_def
        split: option.splits)
  have pr: "propagate s core ?c ?c (ule (mk_val 4 2) (mk_val 4 5)) ncs = (False, core)" for ncs
    by (simp add: propagate_def asc cf)
  have fx: "framed core (try_ugt_x s 0 core ?c)"
    by (rule framed_try_ugt_x)
  have ty: "try_ugt_y s 0 core ?c = Some (False, core)"
    by (simp add: try_ugt_y_def is_l_v_def scenario_lit_eq xv)
  have tz: "try_ugt_z s 0 core ?c = Some (False, core)"
    by (simp add: try_ugt_z_def is_g_v_def scenario_lit_eq xv)
  have ta: "try_y_l_ax_and_x_l_z s 0 core ?c = Some (False, core)"
    by (simp add: try_y_l_ax_and_x_l_z_def is_g_v_def scenario_lit_eq xv)
  have u: "is_ule scenario_lit"
    by (simp add: scenario_lit_eq)
  have p: "perform s 0 core = or_try (try_ugt_x s 0 core ?c) (\<lambda>c. Some (False, core))"
    unfolding perform_def c perform_loop_step [OF u]
    by (simp add: ty tz ta or_try_def)
  have "r = (False, core)" if "perform s 0 core = Some r" for r
    using that unfolding p tx
    by (auto simp: or_try_def pr split: option.splits)
  with m no gv tx cf lf show ?thesis by simp
qed

theorem scenario_rejected_witness:
  "bit_size scenario_solver = 4 \<and> assignment scenario_solver 0 = Some 3 \<and>
   lits scenario_core = [scenario_lit] \<and>
   push_omega scenario_solver [negate (eq (var scenario_solver 0))] (var scenario_solver 0)
     (mk_val 4 2) =
     Some [negate (eq (mk_var 4 0)), ule (mk_var 4 0) (mk_val 4 3),
           ule (mk_val 4 2) (mk_val 4 5)] \<and>
   try_ugt_x scenario_solver 0 scenario_core (as_inequality scenario_lit) =
     Some (False, scenario_core) \<and>
   (case perform scenario_solver 0 scenario_core of
      None \<Rightarrow> False
    | Some r \<Rightarrow> r = (False, scenario_core))"
proof -
  have 1: "bit_size scenario_solver = 4" by code_simp
  have 2: "assignment scenario_solver 0 = Some 3" by code_simp
  have 3: "lits scenario_core = [scenario_lit]" by code_simp
  have 4: "push_omega scenario_solver [negate (eq (var scenario_solver 0))]
             (var scenario_solver 0) (mk_val 4 2) =
           Some [negate (eq (mk_var 4 0)), ule (mk_var 4 0) (mk_val 4 3),
                 ule (mk_val 4 2) (mk_val 4 5)]"
    by code_simp
  have 5: "perform scenario_solver 0 scenario_core \<noteq> None" by code_simp
  have 6: "try_ugt_x scenario_solver 0 scenario_core (as_inequality scenario_lit) =
     Some (False, scenario_core)" by code_simp
  from 5 obtain r where r: "perform scenario_solver 0 scenario_core = Some r" by blast
  from scenario_rejected [OF 1 2 3] r have "r = (False, scenario_core)" by blast
  with 1 2 3 4 6 r show ?thesis by simp
qed

text \<open>
  The scenario as the claim states it fails: with the viable maximum 7 for \<open>v\<close>,
  \<^verbatim>\<open>perform\<close> returns false and leaves the core as it was.
\<close>

theorem scenario_counterexample:
  "perform scenario_solver 0 scenario_core = Some (False, scenario_core)"
  by code_simp

end
